theory Spec2Isabelle
  imports Main "HOL-Library.Word" "HOL-Library.Multiset"
begin

unbundle bit_operations_syntax

section \<open>Machine integers of the sources\<close>

text \<open>
  \<open>int\<close> and \<open>uint\<close> of the C++ sources are 32-bit words. A conversion between
  \<open>int\<close> and \<open>uint\<close> keeps the bit pattern, so both share one type and differ
  only in the comparison that is used: \<open>word_sle\<close> (two's complement) for \<open>int\<close>,
  \<open>\<le>\<close> for \<open>uint\<close>. Arithmetic wraps around, also for \<open>int\<close>, where C++ gives
  an overflow no meaning: the additions, the subtraction and the multiplication of
  \<open>tile_map.cpp\<close> then have the result of the two's complement machine.
  \<open>TileIndex\<close> is an unsigned 32-bit index, and a \<open>Slope\<close> is kept in the \<open>uint\<close>
  in which the classifier computes it.
\<close>

type_synonym c_int = "32 word"
type_synonym c_uint = "32 word"
type_synonym TileIndex = "32 word"
type_synonym Slope = "32 word"

section \<open>macros.h\<close>

text \<open>
  A left shift of a 32-bit operand by 32 or more positions has no defined result in
  C++; the shift is therefore partial and every macro built on it inherits that.
\<close>

definition shl :: "c_uint \<Rightarrow> nat \<Rightarrow> c_uint option" where
  "shl v k = (if k < 32 then Some (push_bit k v) else None)"

definition shr :: "c_uint \<Rightarrow> nat \<Rightarrow> c_uint option" where
  "shr v k = (if k < 32 then Some (drop_bit k v) else None)"

text \<open>\<^verbatim>\<open>#define GB(x, s, n) (((x) >> (s)) & ((1U << (n)) - 1))\<close>\<close>

definition GB :: "c_uint \<Rightarrow> nat \<Rightarrow> nat \<Rightarrow> c_uint option" where
  "GB x s n =
     (case shr x s of None \<Rightarrow> None | Some a \<Rightarrow>
      case shl 1 n of None \<Rightarrow> None | Some b \<Rightarrow>
      Some (a AND (b - 1)))"

text \<open>
  \<^verbatim>\<open>#define AB(x, s, n, i) ((x) = ((x) & ~(((1U << (n)) - 1) << (s))) |
     (((x) + ((i) << (s))) & (((1U << (n)) - 1) << (s))))\<close>
  The macro computes in \<open>unsigned int\<close>, the type of its \<open>1U\<close>; \<open>x\<close> and \<open>i\<close>
  are of that type here. The mask is written twice in the macro and computed twice
  here. The value returned is the new content of the variable \<open>x\<close>.
\<close>

definition AB :: "c_uint \<Rightarrow> nat \<Rightarrow> nat \<Rightarrow> c_uint \<Rightarrow> c_uint option" where
  "AB x s n i =
     (case shl 1 n of None \<Rightarrow> None | Some b1 \<Rightarrow>
      case shl (b1 - 1) s of None \<Rightarrow> None | Some m1 \<Rightarrow>
      case shl i s of None \<Rightarrow> None | Some d \<Rightarrow>
      case shl 1 n of None \<Rightarrow> None | Some b2 \<Rightarrow>
      case shl (b2 - 1) s of None \<Rightarrow> None | Some m2 \<Rightarrow>
      Some ((x AND NOT m1) OR ((x + d) AND m2)))"

text \<open>
  \<open>template<typename T> T max(const T a, const T b)\<close> at \<open>T = int\<close>, which
  returns \<open>a >= b ? a : b\<close>.
\<close>

definition max_int :: "c_int \<Rightarrow> c_int \<Rightarrow> c_int" where
  "max_int a b = (if word_sle b a then a else b)"

text \<open>
  \<open>static inline int min(const int a, const int b)\<close>, which returns
  \<open>a <= b ? a : b\<close>. It is the overload chosen for two \<open>int\<close> arguments, and for
  an \<open>int\<close> and a \<open>uint\<close> argument as in \<open>GetTileZ\<close>, where the template does not
  apply.
\<close>

definition min_int :: "c_int \<Rightarrow> c_int \<Rightarrow> c_int" where
  "min_int a b = (if word_sle a b then a else b)"

section \<open>Slopes\<close>

text \<open>
  Modelled from the spec: the \<open>Slope\<close> enumeration, whose declaration is not among
  the sources. The spec describes it as a bitmask of five flags, one bit per corner
  and one steep bit, with the all-zero value for a flat tile. The bit positions are
  those of the OpenTTD slope enumeration.
\<close>

definition SLOPE_FLAT :: Slope where "SLOPE_FLAT = 0x00"
definition SLOPE_W :: Slope where "SLOPE_W = 0x01"
definition SLOPE_S :: Slope where "SLOPE_S = 0x02"
definition SLOPE_E :: Slope where "SLOPE_E = 0x04"
definition SLOPE_N :: Slope where "SLOPE_N = 0x08"
definition SLOPE_STEEP :: Slope where "SLOPE_STEEP = 0x10"

text \<open>The four corner bits together, and the test of one flag of a mask.\<close>

definition SLOPE_CORNERS :: Slope where
  "SLOPE_CORNERS = SLOPE_N OR SLOPE_W OR SLOPE_E OR SLOPE_S"

definition has_flag :: "Slope \<Rightarrow> Slope \<Rightarrow> bool" where
  "has_flag r f = (r AND f \<noteq> 0)"

section \<open>The optional height output\<close>

text \<open>
  The parameter \<open>int *h\<close> is the content of the caller's storage: \<open>None\<close> is the
  null pointer, \<open>Some v\<close> a storage that holds \<open>v\<close>. A function returns the storage
  as it leaves it. \<open>store h v\<close> is \<^verbatim>\<open>if (h != NULL) *h = v;\<close>.
\<close>

definition store :: "c_int option \<Rightarrow> c_int \<Rightarrow> c_int option" where
  "store h v = (case h of None \<Rightarrow> None | Some old \<Rightarrow> Some v)"

section \<open>tile_map.cpp\<close>

text \<open>
  \<open>static Slope GetTileSlopeGivenHeight(int hnorth, int hwest, int heast, int hsouth,
  int *h)\<close>: the classifier. The variable \<open>r\<close> of the source is \<open>r0\<close> to \<open>r5\<close>,
  one name for each of its values.
\<close>

definition GetTileSlopeGivenHeight ::
  "c_int \<Rightarrow> c_int \<Rightarrow> c_int \<Rightarrow> c_int \<Rightarrow> c_int option \<Rightarrow> Slope \<times> c_int option" where
  "GetTileSlopeGivenHeight hnorth hwest heast hsouth h =
     (let hminnw = min_int hnorth hwest;
          hmines = min_int heast hsouth;
          hmin = min_int hminnw hmines;
          hmaxnw = max_int hnorth hwest;
          hmaxes = max_int heast hsouth;
          hmax = max_int hmaxnw hmaxes;
          r0 = SLOPE_FLAT;
          r1 = (if hnorth \<noteq> hmin then r0 + SLOPE_N else r0);
          r2 = (if hwest \<noteq> hmin then r1 + SLOPE_W else r1);
          r3 = (if heast \<noteq> hmin then r2 + SLOPE_E else r2);
          r4 = (if hsouth \<noteq> hmin then r3 + SLOPE_S else r3);
          r5 = (if hmax - hmin = 2 then r4 + SLOPE_STEEP else r4)
      in (r5, store h hmin))"

text \<open>
  The map accessors used by the resolvers (\<open>MapSize\<close>, \<open>MapMaxX\<close>, \<open>MapMaxY\<close>,
  \<open>TileX\<close>, \<open>TileY\<close>, \<open>TileDiffXY\<close>, \<open>IsInnerTile\<close>, \<open>TileHeight\<close>,
  \<open>TileHeightOutsideMap\<close>) and the constant \<open>TILE_HEIGHT\<close> are declared outside
  the sources at hand. They are parameters, collected in one record.
\<close>

record map_env =
  MapSize :: c_uint
  MapMaxX :: c_uint
  MapMaxY :: c_uint
  TileX :: "TileIndex \<Rightarrow> c_uint"
  TileY :: "TileIndex \<Rightarrow> c_uint"
  TileDiffXY :: "c_int \<Rightarrow> c_int \<Rightarrow> c_int"
  IsInnerTile :: "TileIndex \<Rightarrow> bool"
  TileHeight :: "TileIndex \<Rightarrow> c_uint"
  TileHeightOutsideMap :: "c_int \<Rightarrow> c_int \<Rightarrow> c_uint"
  TILE_HEIGHT :: c_uint

text \<open>\<open>assert(tile < MapSize())\<close> ends the program when it fails.\<close>

datatype error = AssertionFailed

text \<open>\<open>Slope GetTileSlope(TileIndex tile, int *h)\<close>\<close>

definition GetTileSlope ::
  "map_env \<Rightarrow> TileIndex \<Rightarrow> c_int option \<Rightarrow> error + Slope \<times> c_int option" where
  "GetTileSlope env tile h =
     (if \<not> tile < MapSize env then Inl AssertionFailed
      else if \<not> IsInnerTile env tile then Inr (SLOPE_FLAT, store h (TileHeight env tile))
      else
        let hnorth = TileHeight env tile;
            hwest = TileHeight env (tile + TileDiffXY env 1 0);
            heast = TileHeight env (tile + TileDiffXY env 0 1);
            hsouth = TileHeight env (tile + TileDiffXY env 1 1)
        in Inr (GetTileSlopeGivenHeight hnorth hwest heast hsouth h))"

text \<open>
  \<open>bool IsTileFlat(TileIndex tile, int *h)\<close>. The source compares in \<open>uint\<close> and
  leaves the storage untouched when it answers false.
\<close>

definition IsTileFlat ::
  "map_env \<Rightarrow> TileIndex \<Rightarrow> c_int option \<Rightarrow> error + bool \<times> c_int option" where
  "IsTileFlat env tile h =
     (if \<not> tile < MapSize env then Inl AssertionFailed
      else if \<not> IsInnerTile env tile then Inr (True, store h (TileHeight env tile))
      else
        let z = TileHeight env tile
        in if TileHeight env (tile + TileDiffXY env 1 0) \<noteq> z then Inr (False, h)
           else if TileHeight env (tile + TileDiffXY env 0 1) \<noteq> z then Inr (False, h)
           else if TileHeight env (tile + TileDiffXY env 1 1) \<noteq> z then Inr (False, h)
           else Inr (True, store h z))"

text \<open>
  \<open>Slope GetTilePixelSlopeOutsideMap(int x, int y, int *h)\<close>. After the classifier
  has written the storage, \<^verbatim>\<open>if (h != NULL) *h *= TILE_HEIGHT;\<close> rescales it.
\<close>

definition GetTilePixelSlopeOutsideMap ::
  "map_env \<Rightarrow> c_int \<Rightarrow> c_int \<Rightarrow> c_int option \<Rightarrow> Slope \<times> c_int option" where
  "GetTilePixelSlopeOutsideMap env x y h =
     (let hnorth = TileHeightOutsideMap env x y;
          hwest = TileHeightOutsideMap env (x + 1) y;
          heast = TileHeightOutsideMap env x (y + 1);
          hsouth = TileHeightOutsideMap env (x + 1) (y + 1);
          (s, h1) = GetTileSlopeGivenHeight hnorth hwest heast hsouth h;
          h2 = (case h1 of None \<Rightarrow> None | Some v \<Rightarrow> Some (v * TILE_HEIGHT env))
      in (s, h2))"

text \<open>\<open>int GetTileZ(TileIndex tile)\<close>\<close>

definition GetTileZ :: "map_env \<Rightarrow> TileIndex \<Rightarrow> c_int" where
  "GetTileZ env tile =
     (if TileX env tile = MapMaxX env \<or> TileY env tile = MapMaxY env then 0
      else
        let h0 = TileHeight env tile;
            h1 = min_int h0 (TileHeight env (tile + TileDiffXY env 1 0));
            h2 = min_int h1 (TileHeight env (tile + TileDiffXY env 0 1));
            h3 = min_int h2 (TileHeight env (tile + TileDiffXY env 1 1))
        in h3)"

text \<open>\<open>int GetTileMaxZ(TileIndex t)\<close>, with \<open>max<int>\<close>.\<close>

definition GetTileMaxZ :: "map_env \<Rightarrow> TileIndex \<Rightarrow> c_int" where
  "GetTileMaxZ env t =
     (if TileX env t = MapMaxX env \<or> TileY env t = MapMaxY env
      then TileHeightOutsideMap env (TileX env t) (TileY env t)
      else
        let h0 = TileHeight env t;
            h1 = max_int h0 (TileHeight env (t + TileDiffXY env 1 0));
            h2 = max_int h1 (TileHeight env (t + TileDiffXY env 0 1));
            h3 = max_int h2 (TileHeight env (t + TileDiffXY env 1 1))
        in h3)"

section \<open>Auxiliary notions\<close>

text \<open>
  The mask that belongs to five flags: which of the corners north, west, east and
  south are raised, and whether the tile is steep. It is used to state what the
  classifier computes, independently of the order of its additions.
\<close>

definition flags_mask :: "bool \<Rightarrow> bool \<Rightarrow> bool \<Rightarrow> bool \<Rightarrow> bool \<Rightarrow> Slope" where
  "flags_mask n w e s st =
     (if n then SLOPE_N else 0) + (if w then SLOPE_W else 0) + (if e then SLOPE_E else 0)
     + (if s then SLOPE_S else 0) + (if st then SLOPE_STEEP else 0)"

section \<open>A concrete map\<close>

text \<open>
  A map of 4 by 4 tiles in the layout of OpenTTD: the index of tile \<open>(x, y)\<close> is
  \<open>4 * y + x\<close>, and the inner tiles are those with \<open>x < 3\<close> and \<open>y < 3\<close>. The
  stored heights are, row by row, \<open>5 6 6 5\<close>, \<open>6 7 6 5\<close>, \<open>6 6 5 5\<close> and
  \<open>5 5 5 5\<close>, so neighbouring heights differ by at most 1. The outside-map height
  is 3 at \<open>(5, 1)\<close> and 1 elsewhere, which gives the corners (1, 1, 1, 3) of the
  spec's scenario at \<open>(4, 0)\<close>; a height unit is 8 pixels. The map serves as the
  concrete input of the examples below.
\<close>

definition example_map :: map_env where
  "example_map =
     \<lparr> MapSize = 16, MapMaxX = 3, MapMaxY = 3,
       TileX = (\<lambda>t. t AND 3),
       TileY = (\<lambda>t. drop_bit 2 t),
       TileDiffXY = (\<lambda>x y. push_bit 2 y + x),
       IsInnerTile = (\<lambda>t. t AND 3 < 3 \<and> drop_bit 2 t < 3),
       TileHeight = (\<lambda>t. if t = 5 then 7 else if t \<in> {1, 2, 4, 6, 8, 9} then 6 else 5),
       TileHeightOutsideMap = (\<lambda>x y. if x = 5 \<and> y = 1 then 3 else 1),
       TILE_HEIGHT = 8 \<rparr>"

section \<open>Properties of the helpers\<close>

lemmas slope_defs =
  SLOPE_N_def SLOPE_W_def SLOPE_E_def SLOPE_S_def SLOPE_STEEP_def SLOPE_FLAT_def

lemma sint_min_int: "sint (min_int a b) = min (sint a) (sint b)"
  by (simp add: min_int_def word_sle_eq min_def)

lemma sint_max_int: "sint (max_int a b) = max (sint a) (sint b)"
  by (auto simp add: max_int_def word_sle_eq max_def)

lemma sint_min4:
  "sint (min_int (min_int a b) (min_int c d)) = Min {sint a, sint b, sint c, sint d}"
  by (simp add: sint_min_int min.assoc)

lemma sint_max4:
  "sint (max_int (max_int a b) (max_int c d)) = Max {sint a, sint b, sint c, sint d}"
  by (simp add: sint_max_int max.assoc)

lemma min4_cases: "min_int (min_int a b) (min_int c d) \<in> {a, b, c, d}"
  by (simp add: min_int_def)

lemma max4_cases: "max_int (max_int a b) (max_int c d) \<in> {a, b, c, d}"
  by (simp add: max_int_def)

text \<open>Each flag of a mask can be read back, since the five flags are distinct bits.\<close>

lemma flags_N: "has_flag (flags_mask n w e s st) SLOPE_N = n"
  by (cases n; cases w; cases e; cases s; cases st;
      simp add: flags_mask_def has_flag_def slope_defs)

lemma flags_W: "has_flag (flags_mask n w e s st) SLOPE_W = w"
  by (cases n; cases w; cases e; cases s; cases st;
      simp add: flags_mask_def has_flag_def slope_defs)

lemma flags_E: "has_flag (flags_mask n w e s st) SLOPE_E = e"
  by (cases n; cases w; cases e; cases s; cases st;
      simp add: flags_mask_def has_flag_def slope_defs)

lemma flags_S: "has_flag (flags_mask n w e s st) SLOPE_S = s"
  by (cases n; cases w; cases e; cases s; cases st;
      simp add: flags_mask_def has_flag_def slope_defs)

lemma flags_STEEP: "has_flag (flags_mask n w e s st) SLOPE_STEEP = st"
  by (cases n; cases w; cases e; cases s; cases st;
      simp add: flags_mask_def has_flag_def slope_defs)

lemma flags_flat:
  "(flags_mask n w e s st = SLOPE_FLAT) = (\<not> n \<and> \<not> w \<and> \<not> e \<and> \<not> s \<and> \<not> st)"
  by (cases n; cases w; cases e; cases s; cases st;
      simp add: flags_mask_def slope_defs)

lemma flags_corners_all:
  "(flags_mask n w e s st AND SLOPE_CORNERS = SLOPE_CORNERS) = (n \<and> w \<and> e \<and> s)"
  by (cases n; cases w; cases e; cases s; cases st;
      simp add: flags_mask_def SLOPE_CORNERS_def slope_defs)

lemma flags_corners_none:
  "(flags_mask n w e s st AND SLOPE_CORNERS = 0) = (\<not> n \<and> \<not> w \<and> \<not> e \<and> \<not> s)"
  by (cases n; cases w; cases e; cases s; cases st;
      simp add: flags_mask_def SLOPE_CORNERS_def slope_defs)

text \<open>The chain of conditional additions of the classifier builds that mask.\<close>

lemma mask_chain:
  "(let r0 = SLOPE_FLAT;
        r1 = (if n then r0 + SLOPE_N else r0);
        r2 = (if w then r1 + SLOPE_W else r1);
        r3 = (if e then r2 + SLOPE_E else r2);
        r4 = (if s then r3 + SLOPE_S else r3);
        r5 = (if st then r4 + SLOPE_STEEP else r4)
    in r5) = flags_mask n w e s st"
  by (cases n; cases w; cases e; cases s; cases st; simp add: flags_mask_def slope_defs)

lemma classifier_mask:
  "fst (GetTileSlopeGivenHeight hn hw he hs h) =
     flags_mask (hn \<noteq> min_int (min_int hn hw) (min_int he hs))
                (hw \<noteq> min_int (min_int hn hw) (min_int he hs))
                (he \<noteq> min_int (min_int hn hw) (min_int he hs))
                (hs \<noteq> min_int (min_int hn hw) (min_int he hs))
                (max_int (max_int hn hw) (max_int he hs)
                   - min_int (min_int hn hw) (min_int he hs) = 2)"
  by (simp only: GetTileSlopeGivenHeight_def Let_def fst_conv mask_chain[unfolded Let_def])

lemma classifier_height:
  "snd (GetTileSlopeGivenHeight hn hw he hs h) =
     store h (min_int (min_int hn hw) (min_int he hs))"
  by (simp only: GetTileSlopeGivenHeight_def Let_def snd_conv)

text \<open>
  The wrapping subtraction of two \<open>int\<close> values yields 2 exactly when their
  difference as integers is 2, provided the first is not below the second.
\<close>

lemma sint_diff_eq_2:
  fixes a b :: c_int
  assumes "sint b \<le> sint a"
  shows "(a - b = 2) = (sint a - sint b = 2)"
proof
  assume "sint a - sint b = 2"
  then have "word_of_int (sint a - sint b) = (word_of_int 2 :: c_int)" by simp
  then show "a - b = 2" by simp
next
  assume h: "a - b = 2"
  have "sint a < 2 ^ 31" "- (2 ^ 31) \<le> sint b"
    using sint_lt [of a] sint_ge [of b] by simp_all
  then have r: "0 \<le> sint a - sint b" "sint a - sint b < 2 ^ 32"
    using assms sint_ge [of a] sint_lt [of b] by simp_all
  have "a - b = word_of_int (sint a - sint b)" by simp
  then have "uint (a - b) = (sint a - sint b) mod 2 ^ 32"
    by (simp only: uint_word_of_int_eq take_bit_eq_mod) simp
  then show "sint a - sint b = 2" using h r by simp
qed

text \<open>The steep flag in terms of the largest and the smallest corner height.\<close>

lemma classifier_steep_minmax:
  "has_flag (fst (GetTileSlopeGivenHeight hn hw he hs h)) SLOPE_STEEP =
     (Max {sint hn, sint hw, sint he, sint hs} - Min {sint hn, sint hw, sint he, sint hs} = 2)"
proof -
  let ?m = "min_int (min_int hn hw) (min_int he hs)"
  let ?M = "max_int (max_int hn hw) (max_int he hs)"
  have le: "sint ?m \<le> sint ?M" unfolding sint_min4 sint_max4 by simp
  have "has_flag (fst (GetTileSlopeGivenHeight hn hw he hs h)) SLOPE_STEEP = (?M - ?m = 2)"
    by (simp only: classifier_mask flags_STEEP)
  also have "\<dots> = (sint ?M - sint ?m = 2)" by (rule sint_diff_eq_2 [OF le])
  finally show ?thesis by (simp only: sint_min4 sint_max4)
qed

lemma in4_not_all_differ:
  "m \<in> {a, b, c, d} \<Longrightarrow> \<not> (a \<noteq> m \<and> b \<noteq> m \<and> c \<noteq> m \<and> d \<noteq> m)"
  by auto

lemma in4_all_equal:
  "M \<in> {a, b, c, d} \<Longrightarrow> a = m \<Longrightarrow> b = m \<Longrightarrow> c = m \<Longrightarrow> d = m \<Longrightarrow> M = m"
  by auto

lemma set4_all_equal: "(b = a \<and> c = a \<and> d = a) = (card {a, b, c, d} = 1)"
  by (auto simp add: card_1_singleton_iff)

text \<open>The classifier returns the flat mask exactly on four equal heights.\<close>

lemma classifier_flat_iff:
  "(fst (GetTileSlopeGivenHeight hn hw he hs h) = SLOPE_FLAT) =
     (hw = hn \<and> he = hn \<and> hs = hn)"
proof -
  let ?m = "min_int (min_int hn hw) (min_int he hs)"
  let ?M = "max_int (max_int hn hw) (max_int he hs)"
  have eq: "(fst (GetTileSlopeGivenHeight hn hw he hs h) = SLOPE_FLAT) =
        (hn = ?m \<and> hw = ?m \<and> he = ?m \<and> hs = ?m \<and> ?M - ?m \<noteq> 2)"
    by (simp only: classifier_mask flags_flat not_not)
  show ?thesis
  proof
    assume "fst (GetTileSlopeGivenHeight hn hw he hs h) = SLOPE_FLAT"
    with eq have "hn = ?m" "hw = ?m" "he = ?m" "hs = ?m" by blast+
    then show "hw = hn \<and> he = hn \<and> hs = hn" by metis
  next
    assume a: "hw = hn \<and> he = hn \<and> hs = hn"
    have "min_int (min_int hn hn) (min_int hn hn) = hn"
         "max_int (max_int hn hn) (max_int hn hn) = hn"
      by (simp_all add: min_int_def max_int_def)
    with a eq show "fst (GetTileSlopeGivenHeight hn hw he hs h) = SLOPE_FLAT" by simp
  qed
qed

section \<open>The corner height classifier\<close>

text \<open>
  Claim C2. For all four corner heights the classifier stores the minimum of the four
  (read as \<open>int\<close>) when a height output is given and stores nothing otherwise; the
  mask it returns has the bit of a corner exactly when the height of that corner
  differs from the minimum; on four equal heights \<open>z\<close> it returns the flat mask
  and the height \<open>z\<close>.
\<close>

theorem classifier_min_and_corner_bits:
  "\<exists>hmin.
     snd (GetTileSlopeGivenHeight hn hw he hs (Some v)) = Some hmin
     \<and> snd (GetTileSlopeGivenHeight hn hw he hs None) = None
     \<and> hmin \<in> {hn, hw, he, hs}
     \<and> sint hmin = Min {sint hn, sint hw, sint he, sint hs}
     \<and> has_flag (fst (GetTileSlopeGivenHeight hn hw he hs h)) SLOPE_N = (hn \<noteq> hmin)
     \<and> has_flag (fst (GetTileSlopeGivenHeight hn hw he hs h)) SLOPE_W = (hw \<noteq> hmin)
     \<and> has_flag (fst (GetTileSlopeGivenHeight hn hw he hs h)) SLOPE_E = (he \<noteq> hmin)
     \<and> has_flag (fst (GetTileSlopeGivenHeight hn hw he hs h)) SLOPE_S = (hs \<noteq> hmin)
     \<and> GetTileSlopeGivenHeight z z z z (Some v) = (SLOPE_FLAT, Some z)"
proof -
  let ?m = "min_int (min_int hn hw) (min_int he hs)"
  have flat: "GetTileSlopeGivenHeight z z z z (Some v) = (SLOPE_FLAT, Some z)"
    by (simp add: GetTileSlopeGivenHeight_def min_int_def max_int_def store_def SLOPE_FLAT_def)
  have "snd (GetTileSlopeGivenHeight hn hw he hs (Some v)) = Some ?m"
    by (simp add: classifier_height store_def)
  moreover have "snd (GetTileSlopeGivenHeight hn hw he hs None) = None"
    by (simp add: classifier_height store_def)
  moreover have "?m \<in> {hn, hw, he, hs}" by (rule min4_cases)
  moreover have "sint ?m = Min {sint hn, sint hw, sint he, sint hs}" by (rule sint_min4)
  moreover have "has_flag (fst (GetTileSlopeGivenHeight hn hw he hs h)) SLOPE_N = (hn \<noteq> ?m)"
    by (simp only: classifier_mask flags_N)
  moreover have "has_flag (fst (GetTileSlopeGivenHeight hn hw he hs h)) SLOPE_W = (hw \<noteq> ?m)"
    by (simp only: classifier_mask flags_W)
  moreover have "has_flag (fst (GetTileSlopeGivenHeight hn hw he hs h)) SLOPE_E = (he \<noteq> ?m)"
    by (simp only: classifier_mask flags_E)
  moreover have "has_flag (fst (GetTileSlopeGivenHeight hn hw he hs h)) SLOPE_S = (hs \<noteq> ?m)"
    by (simp only: classifier_mask flags_S)
  ultimately show ?thesis using flat by blast
qed

text \<open>The scenarios of the spec with corners (2, 3, 2, 2) and (2, 2, 2, 2).\<close>

theorem classifier_min_and_corner_bits_witness:
  "GetTileSlopeGivenHeight 2 3 2 2 (Some 0) = (SLOPE_W, Some 2)
   \<and> GetTileSlopeGivenHeight 2 2 2 2 (Some 0) = (SLOPE_FLAT, Some 2)"
proof -
  obtain m where m: "snd (GetTileSlopeGivenHeight 2 3 2 2 (Some 0)) = Some m"
      "GetTileSlopeGivenHeight 2 2 2 2 (Some 0) = (SLOPE_FLAT, Some 2)"
    using classifier_min_and_corner_bits [of 2 3 2 2 0 None 2] by blast
  have "GetTileSlopeGivenHeight 2 3 2 2 (Some 0) = (SLOPE_W, Some 2)"
    by (simp add: GetTileSlopeGivenHeight_def min_int_def max_int_def store_def slope_defs)
  with m show ?thesis by simp
qed

text \<open>
  Claim C3. For all four corner heights the steep bit of the returned mask is set
  exactly when the maximum minus the minimum of the four heights is 2; so it is not
  set at a difference of 0 or 1 and it is set at a difference of 2, whatever the
  corner bits are.
\<close>

theorem classifier_steep_iff:
  "has_flag (fst (GetTileSlopeGivenHeight hn hw he hs h)) SLOPE_STEEP =
     (Max {sint hn, sint hw, sint he, sint hs} - Min {sint hn, sint hw, sint he, sint hs} = 2)"
  by (rule classifier_steep_minmax)

text \<open>The scenarios of the spec with corners (2, 4, 2, 2) and (2, 3, 2, 2).\<close>

theorem classifier_steep_iff_witness:
  "has_flag (fst (GetTileSlopeGivenHeight 2 4 2 2 None)) SLOPE_STEEP
   \<and> \<not> has_flag (fst (GetTileSlopeGivenHeight 2 3 2 2 None)) SLOPE_STEEP"
  using classifier_steep_iff [of 2 4 2 2 None] classifier_steep_iff [of 2 3 2 2 None]
  by simp

text \<open>
  Claim C10. For all four corner heights the returned mask never has all four corner
  bits, and whenever it has the steep bit it has at least one corner bit.
\<close>

theorem classifier_mask_invariants:
  "fst (GetTileSlopeGivenHeight hn hw he hs h) AND SLOPE_CORNERS \<noteq> SLOPE_CORNERS
   \<and> (has_flag (fst (GetTileSlopeGivenHeight hn hw he hs h)) SLOPE_STEEP
        \<longrightarrow> fst (GetTileSlopeGivenHeight hn hw he hs h) AND SLOPE_CORNERS \<noteq> 0)"
proof -
  let ?m = "min_int (min_int hn hw) (min_int he hs)"
  let ?M = "max_int (max_int hn hw) (max_int he hs)"
  let ?r = "fst (GetTileSlopeGivenHeight hn hw he hs h)"
  have one: "\<not> (hn \<noteq> ?m \<and> hw \<noteq> ?m \<and> he \<noteq> ?m \<and> hs \<noteq> ?m)"
    by (rule in4_not_all_differ [OF min4_cases])
  have all: "(?r AND SLOPE_CORNERS = SLOPE_CORNERS) = (hn \<noteq> ?m \<and> hw \<noteq> ?m \<and> he \<noteq> ?m \<and> hs \<noteq> ?m)"
    by (simp only: classifier_mask flags_corners_all)
  have first: "?r AND SLOPE_CORNERS \<noteq> SLOPE_CORNERS" using one all by blast
  have none: "(?r AND SLOPE_CORNERS = 0) = (hn = ?m \<and> hw = ?m \<and> he = ?m \<and> hs = ?m)"
    by (simp only: classifier_mask flags_corners_none not_not)
  have st: "has_flag ?r SLOPE_STEEP = (?M - ?m = 2)"
    by (simp only: classifier_mask flags_STEEP)
  have second: "?r AND SLOPE_CORNERS \<noteq> 0" if s: "has_flag ?r SLOPE_STEEP"
  proof
    assume "?r AND SLOPE_CORNERS = 0"
    with none have e: "hn = ?m" "hw = ?m" "he = ?m" "hs = ?m" by blast+
    have "?M = ?m" by (rule in4_all_equal [OF max4_cases e])
    then have "?M - ?m = 0" by simp
    moreover from s st have "?M - ?m = 2" by blast
    ultimately show False by simp
  qed
  from first second show ?thesis by blast
qed

text \<open>Corners (2, 4, 2, 2): steep, with the west corner raised.\<close>

theorem classifier_mask_invariants_witness:
  "has_flag (fst (GetTileSlopeGivenHeight 2 4 2 2 None)) SLOPE_STEEP
   \<and> fst (GetTileSlopeGivenHeight 2 4 2 2 None) AND SLOPE_CORNERS \<noteq> 0
   \<and> fst (GetTileSlopeGivenHeight 2 4 2 2 None) AND SLOPE_CORNERS \<noteq> SLOPE_CORNERS"
proof -
  have s: "has_flag (fst (GetTileSlopeGivenHeight 2 4 2 2 None)) SLOPE_STEEP"
    by (simp add: GetTileSlopeGivenHeight_def min_int_def max_int_def has_flag_def slope_defs)
  with classifier_mask_invariants [of 2 4 2 2 None] show ?thesis by blast
qed

text \<open>
  Claim C8. When four corner heights are a permutation of four others, the classifier
  agrees on both tuples in whether the mask is flat, in whether the steep bit is set
  and in the height it stores. The corner bits do depend on the order: raising the
  north corner alone and raising the west corner alone give different masks.
\<close>

theorem classifier_permutation:
  assumes "mset [hn, hw, he, hs] = mset [pn, pw, pe, ps]"
  shows "(fst (GetTileSlopeGivenHeight hn hw he hs h) = SLOPE_FLAT) =
           (fst (GetTileSlopeGivenHeight pn pw pe ps h) = SLOPE_FLAT)
         \<and> has_flag (fst (GetTileSlopeGivenHeight hn hw he hs h)) SLOPE_STEEP =
           has_flag (fst (GetTileSlopeGivenHeight pn pw pe ps h)) SLOPE_STEEP
         \<and> snd (GetTileSlopeGivenHeight hn hw he hs h) =
           snd (GetTileSlopeGivenHeight pn pw pe ps h)
         \<and> fst (GetTileSlopeGivenHeight 1 0 0 0 h) \<noteq> fst (GetTileSlopeGivenHeight 0 1 0 0 h)"
proof -
  from assms have "set [hn, hw, he, hs] = set [pn, pw, pe, ps]" by (rule mset_eq_setD)
  then have S: "{hn, hw, he, hs} = {pn, pw, pe, ps}" by simp
  then have "sint ` {hn, hw, he, hs} = sint ` {pn, pw, pe, ps}" by (rule arg_cong)
  then have I: "{sint hn, sint hw, sint he, sint hs} = {sint pn, sint pw, sint pe, sint ps}"
    by simp
  have flat: "(fst (GetTileSlopeGivenHeight hn hw he hs h) = SLOPE_FLAT) =
           (fst (GetTileSlopeGivenHeight pn pw pe ps h) = SLOPE_FLAT)"
    by (simp only: classifier_flat_iff set4_all_equal S)
  have steep: "has_flag (fst (GetTileSlopeGivenHeight hn hw he hs h)) SLOPE_STEEP =
           has_flag (fst (GetTileSlopeGivenHeight pn pw pe ps h)) SLOPE_STEEP"
    by (simp only: classifier_steep_minmax I)
  have "sint (min_int (min_int hn hw) (min_int he hs)) = sint (min_int (min_int pn pw) (min_int pe ps))"
    by (simp only: sint_min4 I)
  then have "min_int (min_int hn hw) (min_int he hs) = min_int (min_int pn pw) (min_int pe ps)"
    by (rule signed_word_eqI)
  then have height: "snd (GetTileSlopeGivenHeight hn hw he hs h) =
           snd (GetTileSlopeGivenHeight pn pw pe ps h)"
    by (simp only: classifier_height)
  have differ: "fst (GetTileSlopeGivenHeight 1 0 0 0 h) \<noteq> fst (GetTileSlopeGivenHeight 0 1 0 0 h)"
    by (simp add: GetTileSlopeGivenHeight_def min_int_def max_int_def slope_defs)
  from flat steep height differ show ?thesis by blast
qed

text \<open>The heights (2, 4, 3, 2) and their permutation (3, 2, 2, 4).\<close>

theorem classifier_permutation_witness:
  "mset [2, 4, 3, 2 :: c_int] = mset [3, 2, 2, 4]
   \<and> fst (GetTileSlopeGivenHeight 2 4 3 2 (Some 0)) = SLOPE_W + SLOPE_E + SLOPE_STEEP
   \<and> fst (GetTileSlopeGivenHeight 3 2 2 4 (Some 0)) = SLOPE_N + SLOPE_S + SLOPE_STEEP
   \<and> has_flag (fst (GetTileSlopeGivenHeight 2 4 3 2 (Some 0))) SLOPE_STEEP =
     has_flag (fst (GetTileSlopeGivenHeight 3 2 2 4 (Some 0))) SLOPE_STEEP
   \<and> snd (GetTileSlopeGivenHeight 2 4 3 2 (Some 0)) = snd (GetTileSlopeGivenHeight 3 2 2 4 (Some 0))"
proof -
  have p: "mset [2, 4, 3, 2 :: c_int] = mset [3, 2, 2, 4]" by (simp add: add_mset_commute)
  have a: "fst (GetTileSlopeGivenHeight 2 4 3 2 (Some 0)) = SLOPE_W + SLOPE_E + SLOPE_STEEP"
    by (simp add: GetTileSlopeGivenHeight_def min_int_def max_int_def slope_defs)
  have b: "fst (GetTileSlopeGivenHeight 3 2 2 4 (Some 0)) = SLOPE_N + SLOPE_S + SLOPE_STEEP"
    by (simp add: GetTileSlopeGivenHeight_def min_int_def max_int_def slope_defs)
  from classifier_permutation [OF p, of "Some 0"] p a b show ?thesis by blast
qed

section \<open>The tile resolvers and the height queries\<close>

text \<open>
  The definitions to unfold when a function is evaluated on the concrete map.
\<close>

lemmas example_map_simps =
  example_map_def GetTileSlope_def IsTileFlat_def GetTileZ_def GetTileMaxZ_def
  GetTilePixelSlopeOutsideMap_def GetTileSlopeGivenHeight_def
  min_int_def max_int_def word_sle_eq store_def slope_defs

text \<open>
  Minimum and maximum as the height queries compute them, one corner after the other.
\<close>

lemma sint_min_chain:
  "sint (min_int (min_int (min_int a b) c) d) = Min {sint a, sint b, sint c, sint d}"
  by (simp add: sint_min_int min.assoc)

lemma sint_max_chain:
  "sint (max_int (max_int (max_int a b) c) d) = Max {sint a, sint b, sint c, sint d}"
  by (simp add: sint_max_int max.assoc)

lemma min_chain_cases: "min_int (min_int (min_int a b) c) d \<in> {a, b, c, d}"
  by (simp add: min_int_def)

lemma max_chain_cases: "max_int (max_int (max_int a b) c) d \<in> {a, b, c, d}"
  by (simp add: max_int_def)

text \<open>
  Claim C4. For a tile index below \<open>MapSize\<close> that is not an inner tile,
  \<open>GetTileSlope\<close> returns the flat slope; with a height output it stores the height
  stored for that one tile, and without one it stores nothing. The result is the same
  on every map that differs only in the heights stored for other tiles, so no other
  height is looked up.
\<close>

theorem GetTileSlope_outer_tile:
  assumes "tile < MapSize env" and "\<not> IsInnerTile env tile"
  shows "GetTileSlope env tile (Some v) = Inr (SLOPE_FLAT, Some (TileHeight env tile))
         \<and> GetTileSlope env tile None = Inr (SLOPE_FLAT, None)
         \<and> GetTileSlope
              (env\<lparr>TileHeight := (\<lambda>t. if t = tile then TileHeight env tile else g t)\<rparr>) tile h
             = GetTileSlope env tile h"
  using assms by (simp add: GetTileSlope_def store_def)

text \<open>
  Tile 3 of the concrete map lies in the row of maximum X and stores height 5; the
  other tiles may hold any height, here 9.
\<close>

theorem GetTileSlope_outer_tile_witness:
  "(3 :: TileIndex) < MapSize example_map \<and> \<not> IsInnerTile example_map 3
   \<and> GetTileSlope example_map 3 (Some 0) = Inr (SLOPE_FLAT, Some 5)
   \<and> GetTileSlope
        (example_map\<lparr>TileHeight := (\<lambda>t. if t = 3 then TileHeight example_map 3 else 9)\<rparr>)
        3 (Some 0)
       = Inr (SLOPE_FLAT, Some 5)"
proof -
  have a: "(3 :: TileIndex) < MapSize example_map" by (simp add: example_map_def)
  have b: "\<not> IsInnerTile example_map 3" by (simp add: example_map_def)
  have c: "TileHeight example_map 3 = 5" by (simp add: example_map_def)
  from GetTileSlope_outer_tile [OF a b, of 0 "\<lambda>t. 9" "Some 0"] a b c show ?thesis by simp
qed

text \<open>
  Claim C5. For a tile index below \<open>MapSize\<close>, \<open>IsTileFlat\<close> and \<open>GetTileSlope\<close>
  both return, \<open>IsTileFlat\<close> answers true exactly when \<open>GetTileSlope\<close> returns the
  flat mask, and when it answers true the two leave the same content in the height
  output.
\<close>

theorem IsTileFlat_agrees_with_GetTileSlope:
  assumes "tile < MapSize env"
  shows "\<exists>b hb s hs.
           IsTileFlat env tile h = Inr (b, hb) \<and> GetTileSlope env tile h = Inr (s, hs)
           \<and> b = (s = SLOPE_FLAT) \<and> (b \<longrightarrow> hb = hs)"
proof (cases "IsInnerTile env tile")
  case False
  with assms show ?thesis by (auto simp add: IsTileFlat_def GetTileSlope_def)
next
  case True
  let ?z = "TileHeight env tile"
  let ?w = "TileHeight env (tile + TileDiffXY env 1 0)"
  let ?e = "TileHeight env (tile + TileDiffXY env 0 1)"
  let ?s = "TileHeight env (tile + TileDiffXY env 1 1)"
  let ?c = "GetTileSlopeGivenHeight ?z ?w ?e ?s h"
  have g: "GetTileSlope env tile h = Inr (fst ?c, snd ?c)"
    using assms True by (simp add: GetTileSlope_def Let_def)
  have f: "IsTileFlat env tile h =
      Inr (if ?w = ?z \<and> ?e = ?z \<and> ?s = ?z then (True, store h ?z) else (False, h))"
    using assms True by (simp add: IsTileFlat_def Let_def)
  show ?thesis
  proof (cases "?w = ?z \<and> ?e = ?z \<and> ?s = ?z")
    case False
    then have nf: "fst ?c \<noteq> SLOPE_FLAT" by (simp only: classifier_flat_iff not_False_eq_True)
    from f False have f': "IsTileFlat env tile h = Inr (False, h)" by simp
    have "IsTileFlat env tile h = Inr (False, h) \<and> GetTileSlope env tile h = Inr (fst ?c, snd ?c)
          \<and> False = (fst ?c = SLOPE_FLAT) \<and> (False \<longrightarrow> h = snd ?c)"
      using f' g nf by simp
    then show ?thesis by blast
  next
    case eq: True
    then have flat: "fst ?c = SLOPE_FLAT" by (simp only: classifier_flat_iff)
    have "min_int (min_int ?z ?z) (min_int ?z ?z) = ?z" by (simp add: min_int_def)
    with eq have "min_int (min_int ?z ?w) (min_int ?e ?s) = ?z" by simp
    then have sn: "snd ?c = store h ?z" by (simp only: classifier_height)
    from f eq have f': "IsTileFlat env tile h = Inr (True, store h ?z)" by simp
    have "IsTileFlat env tile h = Inr (True, store h ?z)
          \<and> GetTileSlope env tile h = Inr (fst ?c, snd ?c)
          \<and> True = (fst ?c = SLOPE_FLAT) \<and> (True \<longrightarrow> store h ?z = snd ?c)"
      using f' g flat sn by simp
    then show ?thesis by blast
  qed
qed

text \<open>
  Tile 10 of the concrete map is an inner tile with four corners of height 5; tile 0
  is an inner tile that is not flat.
\<close>

theorem IsTileFlat_agrees_with_GetTileSlope_witness:
  "(10 :: TileIndex) < MapSize example_map
   \<and> IsTileFlat example_map 10 (Some 0) = Inr (True, Some 5)
   \<and> GetTileSlope example_map 10 (Some 0) = Inr (SLOPE_FLAT, Some 5)
   \<and> IsTileFlat example_map 0 (Some 0) = Inr (False, Some 0)
   \<and> GetTileSlope example_map 0 (Some 0) = Inr (SLOPE_W + SLOPE_E + SLOPE_S + SLOPE_STEEP, Some 5)"
proof -
  have a: "(10 :: TileIndex) < MapSize example_map" by (simp add: example_map_def)
  have b: "IsTileFlat example_map 10 (Some 0) = Inr (True, Some 5)"
    by (simp add: example_map_simps)
  have c: "IsTileFlat example_map 0 (Some 0) = Inr (False, Some 0)"
    by (simp add: example_map_simps)
  have d: "GetTileSlope example_map 0 (Some 0) = Inr (SLOPE_W + SLOPE_E + SLOPE_S + SLOPE_STEEP, Some 5)"
    by (simp add: example_map_simps)
  from IsTileFlat_agrees_with_GetTileSlope [OF a, of "Some 0"] b
  have "GetTileSlope example_map 10 (Some 0) = Inr (SLOPE_FLAT, Some 5)" by auto
  with a b c d show ?thesis by simp
qed

text \<open>
  Claim C6. \<open>GetTilePixelSlopeOutsideMap\<close> returns the mask that the classifier
  computes from the outside-map heights at \<open>(x, y)\<close>, \<open>(x + 1, y)\<close>, \<open>(x, y + 1)\<close>
  and \<open>(x + 1, y + 1)\<close>; with a height output it stores the minimum height of the
  classifier times \<open>TILE_HEIGHT\<close> (in wrapping \<open>int\<close> arithmetic), and without
  one it stores nothing. \<open>GetTileSlope\<close> stores the height unscaled: for an inner
  tile what the classifier stores for its four corners, for any other tile the
  height stored for the tile.
\<close>

theorem GetTilePixelSlopeOutsideMap_scales_height:
  "\<exists>s m.
     GetTileSlopeGivenHeight (TileHeightOutsideMap env x y) (TileHeightOutsideMap env (x + 1) y)
       (TileHeightOutsideMap env x (y + 1)) (TileHeightOutsideMap env (x + 1) (y + 1)) (Some v)
       = (s, Some m)
     \<and> GetTilePixelSlopeOutsideMap env x y (Some v) = (s, Some (m * TILE_HEIGHT env))
     \<and> GetTilePixelSlopeOutsideMap env x y None = (s, None)
     \<and> (tile < MapSize env \<and> IsInnerTile env tile \<longrightarrow>
          GetTileSlope env tile (Some v) =
            Inr (GetTileSlopeGivenHeight (TileHeight env tile)
                   (TileHeight env (tile + TileDiffXY env 1 0))
                   (TileHeight env (tile + TileDiffXY env 0 1))
                   (TileHeight env (tile + TileDiffXY env 1 1)) (Some v)))
     \<and> (tile < MapSize env \<and> \<not> IsInnerTile env tile \<longrightarrow>
          GetTileSlope env tile (Some v) = Inr (SLOPE_FLAT, Some (TileHeight env tile)))"
proof -
  let ?n = "TileHeightOutsideMap env x y"
  let ?w = "TileHeightOutsideMap env (x + 1) y"
  let ?e = "TileHeightOutsideMap env x (y + 1)"
  let ?s = "TileHeightOutsideMap env (x + 1) (y + 1)"
  let ?m = "min_int (min_int ?n ?w) (min_int ?e ?s)"
  obtain r where r: "fst (GetTileSlopeGivenHeight ?n ?w ?e ?s (Some v)) = r" by simp
  then have r0: "fst (GetTileSlopeGivenHeight ?n ?w ?e ?s None) = r"
    by (simp only: classifier_mask)
  have c: "GetTileSlopeGivenHeight ?n ?w ?e ?s (Some v) = (r, Some ?m)"
    using classifier_height [of ?n ?w ?e ?s "Some v"] r by (simp add: store_def prod_eq_iff)
  have c0: "GetTileSlopeGivenHeight ?n ?w ?e ?s None = (r, None)"
    using classifier_height [of ?n ?w ?e ?s None] r0 by (simp add: store_def prod_eq_iff)
  have p: "GetTilePixelSlopeOutsideMap env x y (Some v) = (r, Some (?m * TILE_HEIGHT env))"
    unfolding GetTilePixelSlopeOutsideMap_def Let_def c by simp
  have p0: "GetTilePixelSlopeOutsideMap env x y None = (r, None)"
    unfolding GetTilePixelSlopeOutsideMap_def Let_def c0 by simp
  have g: "tile < MapSize env \<and> IsInnerTile env tile \<longrightarrow>
          GetTileSlope env tile (Some v) =
            Inr (GetTileSlopeGivenHeight (TileHeight env tile)
                   (TileHeight env (tile + TileDiffXY env 1 0))
                   (TileHeight env (tile + TileDiffXY env 0 1))
                   (TileHeight env (tile + TileDiffXY env 1 1)) (Some v))"
    by (simp add: GetTileSlope_def Let_def)
  have g0: "tile < MapSize env \<and> \<not> IsInnerTile env tile \<longrightarrow>
          GetTileSlope env tile (Some v) = Inr (SLOPE_FLAT, Some (TileHeight env tile))"
    by (simp add: GetTileSlope_def store_def)
  from c p p0 g g0 show ?thesis by blast
qed

text \<open>
  Outside the concrete map at (4, 0) the corners are (1, 1, 1, 3), the scenario of the
  spec: height 1 becomes 8 pixels. Tile 0 is an inner tile, tile 3 is not.
\<close>

theorem GetTilePixelSlopeOutsideMap_scales_height_witness:
  "GetTileSlopeGivenHeight 1 1 1 3 (Some 0) = (SLOPE_S + SLOPE_STEEP, Some 1)
   \<and> GetTilePixelSlopeOutsideMap example_map 4 0 (Some 0) = (SLOPE_S + SLOPE_STEEP, Some 8)
   \<and> (0 :: TileIndex) < MapSize example_map \<and> IsInnerTile example_map 0
   \<and> GetTileSlope example_map 0 (Some 0) = Inr (SLOPE_W + SLOPE_E + SLOPE_S + SLOPE_STEEP, Some 5)
   \<and> (3 :: TileIndex) < MapSize example_map \<and> \<not> IsInnerTile example_map 3
   \<and> GetTileSlope example_map 3 (Some 0) = Inr (SLOPE_FLAT, Some 5)"
proof -
  have c: "GetTileSlopeGivenHeight 1 1 1 3 (Some 0) = (SLOPE_S + SLOPE_STEEP, Some 1)"
    by (simp add: example_map_simps)
  have i: "(0 :: TileIndex) < MapSize example_map \<and> IsInnerTile example_map 0"
    by (simp add: example_map_def)
  have e: "(3 :: TileIndex) < MapSize example_map \<and> \<not> IsInnerTile example_map 3"
    by (simp add: example_map_def)
  have t: "GetTileSlopeGivenHeight (TileHeight example_map 0)
                   (TileHeight example_map (0 + TileDiffXY example_map 1 0))
                   (TileHeight example_map (0 + TileDiffXY example_map 0 1))
                   (TileHeight example_map (0 + TileDiffXY example_map 1 1)) (Some 0)
           = (SLOPE_W + SLOPE_E + SLOPE_S + SLOPE_STEEP, Some 5)"
    by (simp add: example_map_simps)
  have h3: "TileHeight example_map 3 = 5" by (simp add: example_map_def)
  from GetTilePixelSlopeOutsideMap_scales_height [of example_map 4 0 0 0]
  obtain s m where
    A: "GetTileSlopeGivenHeight (TileHeightOutsideMap example_map 4 0)
          (TileHeightOutsideMap example_map (4 + 1) 0)
          (TileHeightOutsideMap example_map 4 (0 + 1))
          (TileHeightOutsideMap example_map (4 + 1) (0 + 1)) (Some 0) = (s, Some m)"
    and B: "GetTilePixelSlopeOutsideMap example_map 4 0 (Some 0)
          = (s, Some (m * TILE_HEIGHT example_map))"
    by blast
  have "GetTileSlopeGivenHeight (TileHeightOutsideMap example_map 4 0)
          (TileHeightOutsideMap example_map (4 + 1) 0)
          (TileHeightOutsideMap example_map 4 (0 + 1))
          (TileHeightOutsideMap example_map (4 + 1) (0 + 1)) (Some 0)
        = (SLOPE_S + SLOPE_STEEP, Some 1)"
    by (simp add: example_map_simps)
  with A have "s = SLOPE_S + SLOPE_STEEP" "m = 1" by simp_all
  with B have 1: "GetTilePixelSlopeOutsideMap example_map 4 0 (Some 0) = (SLOPE_S + SLOPE_STEEP, Some 8)"
    by (simp add: example_map_def)
  from GetTilePixelSlopeOutsideMap_scales_height [of example_map 4 0 0 0] i
  have 2: "GetTileSlope example_map 0 (Some 0) = Inr (SLOPE_W + SLOPE_E + SLOPE_S + SLOPE_STEEP, Some 5)"
    unfolding t by blast
  from GetTilePixelSlopeOutsideMap_scales_height [of example_map 4 0 0 3] e
  have 3: "GetTileSlope example_map 3 (Some 0) = Inr (SLOPE_FLAT, Some 5)"
    unfolding h3 by blast
  from c 1 2 3 i e show ?thesis by blast
qed

text \<open>
  Claim C7. For a tile in the row of maximum X or of maximum Y, \<open>GetTileMaxZ\<close>
  returns what \<open>TileHeightOutsideMap\<close> returns at the coordinates
  \<open>(TileX t, TileY t)\<close> of the tile; it does not call \<open>TileHeight\<close> there. For
  every other tile it returns the maximum (as \<open>int\<close>) of the four corner heights.
\<close>

theorem GetTileMaxZ_edge_and_interior:
  "(TileX env t = MapMaxX env \<or> TileY env t = MapMaxY env \<longrightarrow>
      GetTileMaxZ env t = TileHeightOutsideMap env (TileX env t) (TileY env t))
   \<and> (TileX env t \<noteq> MapMaxX env \<and> TileY env t \<noteq> MapMaxY env \<longrightarrow>
      GetTileMaxZ env t \<in>
        {TileHeight env t, TileHeight env (t + TileDiffXY env 1 0),
         TileHeight env (t + TileDiffXY env 0 1), TileHeight env (t + TileDiffXY env 1 1)}
      \<and> sint (GetTileMaxZ env t) =
        Max {sint (TileHeight env t), sint (TileHeight env (t + TileDiffXY env 1 0)),
             sint (TileHeight env (t + TileDiffXY env 0 1)),
             sint (TileHeight env (t + TileDiffXY env 1 1))})"
  by (simp only: GetTileMaxZ_def Let_def sint_max_chain max_chain_cases split: if_split) simp

text \<open>
  Tile 3 of the concrete map lies in the row of maximum X and stores height 5, while
  the outside-map height at its coordinates is 1. Tile 0 is interior, with corners
  5, 6, 6 and 7.
\<close>

theorem GetTileMaxZ_edge_and_interior_witness:
  "TileX example_map 3 = MapMaxX example_map
   \<and> GetTileMaxZ example_map 3 = 1 \<and> TileHeight example_map 3 = 5
   \<and> TileX example_map 0 \<noteq> MapMaxX example_map \<and> TileY example_map 0 \<noteq> MapMaxY example_map
   \<and> sint (GetTileMaxZ example_map 0) = 7"
proof -
  have e: "TileX example_map 3 = MapMaxX example_map" by (simp add: example_map_def)
  have i: "TileX example_map 0 \<noteq> MapMaxX example_map \<and> TileY example_map 0 \<noteq> MapMaxY example_map"
    by (simp add: example_map_def)
  have v: "TileHeightOutsideMap example_map (TileX example_map 3) (TileY example_map 3) = 1"
    "TileHeight example_map 3 = 5"
    by (simp_all add: example_map_def)
  have c: "TileHeight example_map 0 = 5" "TileHeight example_map (0 + TileDiffXY example_map 1 0) = 6"
    "TileHeight example_map (0 + TileDiffXY example_map 0 1) = 6"
    "TileHeight example_map (0 + TileDiffXY example_map 1 1) = 7"
    by (simp_all add: example_map_def)
  from GetTileMaxZ_edge_and_interior [of example_map 3] e v
  have 1: "GetTileMaxZ example_map 3 = 1" by simp
  from GetTileMaxZ_edge_and_interior [of example_map 0] i
  have "sint (GetTileMaxZ example_map 0) = Max {sint (5 :: c_int), sint (6 :: c_int), sint (7 :: c_int)}"
    unfolding c by simp
  then have 2: "sint (GetTileMaxZ example_map 0) = 7" by simp
  from e i v 1 2 show ?thesis by simp
qed

text \<open>
  Claim C1, as the source has it. For a tile in the row of maximum X or of maximum
  Y, \<open>GetTileZ\<close> returns 0, whatever height is stored for the tile. For every
  other tile it returns the minimum (as \<open>int\<close>) of the four corner heights.
\<close>

theorem GetTileZ_edge_is_zero:
  "(TileX env t = MapMaxX env \<or> TileY env t = MapMaxY env \<longrightarrow> GetTileZ env t = 0)
   \<and> (TileX env t \<noteq> MapMaxX env \<and> TileY env t \<noteq> MapMaxY env \<longrightarrow>
      GetTileZ env t \<in>
        {TileHeight env t, TileHeight env (t + TileDiffXY env 1 0),
         TileHeight env (t + TileDiffXY env 0 1), TileHeight env (t + TileDiffXY env 1 1)}
      \<and> sint (GetTileZ env t) =
        Min {sint (TileHeight env t), sint (TileHeight env (t + TileDiffXY env 1 0)),
             sint (TileHeight env (t + TileDiffXY env 0 1)),
             sint (TileHeight env (t + TileDiffXY env 1 1))})"
  by (simp only: GetTileZ_def Let_def sint_min_chain min_chain_cases split: if_split) simp

text \<open>
  Tile 3 of the concrete map lies in the row of maximum X; tile 0 is interior, with
  corners 5, 6, 6 and 7.
\<close>

theorem GetTileZ_edge_is_zero_witness:
  "TileX example_map 3 = MapMaxX example_map \<and> GetTileZ example_map 3 = 0
   \<and> TileX example_map 0 \<noteq> MapMaxX example_map \<and> TileY example_map 0 \<noteq> MapMaxY example_map
   \<and> sint (GetTileZ example_map 0) = 5"
proof -
  have e: "TileX example_map 3 = MapMaxX example_map" by (simp add: example_map_def)
  have i: "TileX example_map 0 \<noteq> MapMaxX example_map \<and> TileY example_map 0 \<noteq> MapMaxY example_map"
    by (simp add: example_map_def)
  have c: "TileHeight example_map 0 = 5" "TileHeight example_map (0 + TileDiffXY example_map 1 0) = 6"
    "TileHeight example_map (0 + TileDiffXY example_map 0 1) = 6"
    "TileHeight example_map (0 + TileDiffXY example_map 1 1) = 7"
    by (simp_all add: example_map_def)
  from GetTileZ_edge_is_zero [of example_map 3] e
  have 1: "GetTileZ example_map 3 = 0" by simp
  from GetTileZ_edge_is_zero [of example_map 0] i
  have "sint (GetTileZ example_map 0) = Min {sint (5 :: c_int), sint (6 :: c_int), sint (7 :: c_int)}"
    unfolding c by simp
  then have 2: "sint (GetTileZ example_map 0) = 5" by simp
  from e i 1 2 show ?thesis by simp
qed

text \<open>
  Claim C1 as stated fails: tile 3 of the concrete map lies in the row of maximum X
  and stores height 5, and \<open>GetTileZ\<close> returns 0 for it.
\<close>

theorem GetTileZ_edge_counterexample:
  "TileX example_map 3 = MapMaxX example_map
   \<and> TileHeight example_map 3 = 5 \<and> GetTileZ example_map 3 = 0
   \<and> GetTileZ example_map 3 \<noteq> TileHeight example_map 3"
  by (simp add: example_map_def GetTileZ_def)

section \<open>The add-bits macro\<close>

text \<open>
  Bits \<open>s\<close> and above of a sum \<open>x + i * 2 ^ s\<close> are those of \<open>x\<close> shifted down
  plus \<open>i\<close>, first on integers and then on the lowest \<open>n\<close> bits of a 32-bit
  word when the window fits.
\<close>

lemma int_drop_add_push: "drop_bit s (a + push_bit s (b::int)) = drop_bit s a + b"
  by (simp add: drop_bit_eq_div push_bit_eq_mult)

lemma word_as_int_sum:
  fixes x i :: "32 word"
  shows "x + push_bit s i = word_of_int (uint x + push_bit s (uint i))"
  by (simp add: push_bit_eq_mult)

lemma window_add:
  fixes x i :: "32 word"
  assumes "s + n \<le> 32"
  shows "take_bit n (drop_bit s (x + push_bit s i)) = take_bit n (drop_bit s x + i)"
proof (rule bit_eqI)
  fix k
  have "take_bit 32 (uint x) = uint x"
    by (rule take_bit_int_eq_self) (use uint_bounded [of x] in simp_all)
  then have "uint (drop_bit s x) = drop_bit s (uint x)"
    by (simp add: unsigned_drop_bit_eq)
  then have r: "drop_bit s x + i = word_of_int (drop_bit s (uint x) + uint i)"
    by (metis word_of_int_uint wi_hom_add)
  show "bit (take_bit n (drop_bit s (x + push_bit s i))) k = bit (take_bit n (drop_bit s x + i)) k"
  proof (cases "k < n")
    case False
    then show ?thesis by (simp add: bit_take_bit_iff)
  next
    case True
    with assms have b: "s + k < 32" "k < 32" by simp_all
    have "bit (take_bit n (drop_bit s (x + push_bit s i))) k = bit (x + push_bit s i) (s + k)"
      using True by (simp add: bit_take_bit_iff bit_drop_bit_eq)
    also have "\<dots> = bit (uint x + push_bit s (uint i)) (s + k)"
      using b by (simp only: word_as_int_sum bit_word_of_int_iff) simp
    also have "\<dots> = bit (drop_bit s (uint x + push_bit s (uint i))) k"
      by (simp add: bit_drop_bit_eq)
    also have "\<dots> = bit (drop_bit s (uint x) + uint i) k"
      by (simp only: int_drop_add_push)
    also have "\<dots> = bit (drop_bit s x + i) k"
      using b by (simp only: r bit_word_of_int_iff) simp
    also have "\<dots> = bit (take_bit n (drop_bit s x + i)) k"
      using True by (simp add: bit_take_bit_iff)
    finally show ?thesis .
  qed
qed

lemma bit_window_mask:
  "bit (push_bit s (mask n :: 32 word)) k = (s \<le> k \<and> k < s + n \<and> k < 32)"
  by (auto simp add: bit_push_bit_iff bit_mask_iff)

lemma AB_defined:
  assumes "s < 32" and "n < 32"
  shows "AB x s n i =
    Some ((x AND NOT (push_bit s (mask n))) OR ((x + push_bit s i) AND push_bit s (mask n)))"
  using assms by (simp add: AB_def shl_def mask_eq_exp_minus_1)

lemma GB_defined:
  assumes "s < 32" and "n < 32"
  shows "GB x s n = Some (take_bit n (drop_bit s x))"
  using assms by (simp add: GB_def shl_def shr_def take_bit_eq_mask mask_eq_exp_minus_1)

lemma bit_AB_value:
  "bit ((x AND NOT (push_bit s (mask n))) OR ((x + push_bit s i) AND push_bit s (mask n))) k =
     (if s \<le> k \<and> k < s + n \<and> k < 32 then bit (x + push_bit s i) k else bit (x :: 32 word) k)"
  by (auto simp add: bit_or_iff bit_and_iff bit_not_iff bit_window_mask dest: bit_imp_le_length)

lemma window_of_AB_value:
  fixes x i :: "32 word"
  assumes "s + n \<le> 32"
  shows "take_bit n (drop_bit s
           ((x AND NOT (push_bit s (mask n))) OR ((x + push_bit s i) AND push_bit s (mask n))))
         = take_bit n (drop_bit s (x + push_bit s i))"
proof (rule bit_eqI)
  fix k
  show "bit (take_bit n (drop_bit s
           ((x AND NOT (push_bit s (mask n))) OR ((x + push_bit s i) AND push_bit s (mask n))))) k
        = bit (take_bit n (drop_bit s (x + push_bit s i))) k"
    using assms by (simp only: bit_take_bit_iff bit_drop_bit_eq o_apply bit_AB_value) auto
qed

lemma unat_take_bit_add:
  fixes w i :: "32 word"
  assumes "n \<le> 32"
  shows "unat (take_bit n (w + i)) = (unat w + unat i) mod 2 ^ n"
proof -
  have d: "(2 :: nat) ^ n dvd 2 ^ 32" using assms by (rule le_imp_power_dvd)
  have "unat (take_bit n (w + i)) = take_bit n (unat (w + i))"
    by (rule unsigned_take_bit_eq)
  also have "\<dots> = unat (w + i) mod 2 ^ n" by (rule take_bit_eq_mod)
  also have "unat (w + i) = (unat w + unat i) mod 2 ^ 32"
    by (simp add: unat_word_ariths)
  also have "(unat w + unat i) mod 2 ^ 32 mod 2 ^ n = (unat w + unat i) mod 2 ^ n"
    using d by (rule mod_mod_cancel)
  finally show ?thesis .
qed

lemma take_bit_add_left:
  fixes a b :: "32 word"
  assumes "n \<le> 32"
  shows "take_bit n (take_bit n a + b) = take_bit n (a + b)"
proof -
  have "unat (take_bit n a) = take_bit n (unat a)" by (rule unsigned_take_bit_eq)
  also have "\<dots> = unat a mod 2 ^ n" by (rule take_bit_eq_mod)
  finally have "unat (take_bit n (take_bit n a + b)) = unat (take_bit n (a + b))"
    by (simp only: unat_take_bit_add [OF assms] mod_add_left_eq)
  then show ?thesis by (rule unsigned_word_eqI)
qed

text \<open>
  Claim C9, as the source has it. For a 32-bit unsigned \<open>x\<close>, a start bit
  \<open>s < 32\<close>, a width \<open>n < 32\<close> with \<open>s + n \<le> 32\<close> and an increment \<open>i\<close>, the
  macro \<open>AB\<close> has a defined result; every bit outside the window \<open>[s, s + n)\<close> is
  that of \<open>x\<close>, and the window, read with \<open>GB\<close>, holds the old window value plus
  \<open>i\<close> reduced modulo \<open>2 ^ n\<close>.
\<close>

theorem AB_adds_within_window:
  assumes "s < 32" and "n < 32" and "s + n \<le> 32"
  shows "\<exists>y w. AB x s n i = Some y \<and> GB x s n = Some w
           \<and> GB y s n = Some (take_bit n (w + i))
           \<and> unat (take_bit n (w + i)) = (unat w + unat i) mod 2 ^ n
           \<and> (\<forall>k. k < s \<or> s + n \<le> k \<longrightarrow> bit y k = bit x k)"
proof -
  let ?y = "(x AND NOT (push_bit s (mask n))) OR ((x + push_bit s i) AND push_bit s (mask n))"
  let ?w = "take_bit n (drop_bit s x)"
  have 1: "AB x s n i = Some ?y" using assms(1,2) by (rule AB_defined)
  have 2: "GB x s n = Some ?w" using assms(1,2) by (rule GB_defined)
  have "take_bit n (drop_bit s ?y) = take_bit n (drop_bit s (x + push_bit s i))"
    using assms(3) by (rule window_of_AB_value)
  also have "\<dots> = take_bit n (drop_bit s x + i)" using assms(3) by (rule window_add)
  also have "\<dots> = take_bit n (?w + i)"
    using assms(2) by (intro take_bit_add_left [symmetric]) simp
  finally have 3: "GB ?y s n = Some (take_bit n (?w + i))"
    using GB_defined [OF assms(1,2), of ?y] by simp
  have 4: "unat (take_bit n (?w + i)) = (unat ?w + unat i) mod 2 ^ n"
    using assms(2) by (intro unat_take_bit_add) simp
  have 5: "\<forall>k. k < s \<or> s + n \<le> k \<longrightarrow> bit ?y k = bit x k"
    by (simp add: bit_AB_value)
  from 1 2 3 4 5 show ?thesis by blast
qed

text \<open>
  Adding 1 to the window of four bits at bit 4 of 0xABFF wraps the window to 0 and
  leaves the bits 0xAB above it and the bits 0xF below it alone.
\<close>

theorem AB_adds_within_window_witness:
  "(4 :: nat) < 32 \<and> (4 :: nat) + 4 \<le> 32
   \<and> AB 0xABFF 4 4 1 = Some 0xAB0F \<and> GB 0xABFF 4 4 = Some 0xF \<and> GB 0xAB0F 4 4 = Some 0"
proof -
  have a: "(4 :: nat) < 32" "(4 :: nat) + 4 \<le> 32" by simp_all
  have v: "AB 0xABFF 4 4 1 = Some 0xAB0F" by (simp add: AB_def shl_def)
  have g: "GB 0xABFF 4 4 = Some 0xF" by (simp add: GB_def shl_def shr_def)
  from AB_adds_within_window [OF a(1) a(1) a(2), of "0xABFF" 1] v g
  have "GB 0xAB0F 4 4 = Some (take_bit 4 (0xF + 1))" by auto
  then have "GB 0xAB0F 4 4 = Some 0" by simp
  with a v g show ?thesis by simp
qed

text \<open>
  Claim C9 as stated fails for the window that is the whole word: \<open>s = 0\<close> and
  \<open>n = 32\<close> satisfy \<open>s + n \<le> 32\<close>, but the macro shifts \<open>1U\<close> by 32 positions,
  which has no defined result.
\<close>

theorem AB_full_width_counterexample:
  "(0 :: nat) + 32 \<le> 32 \<and> AB 5 0 32 1 = None"
  by (simp add: AB_def shl_def)

end
